theory Spec2Isabelle
  imports Main "HOL-Library.Word"
begin

section \<open>The optional-type shim: OptionalWrapper.h\<close>

text \<open>
  The header is a three-way preprocessor switch. A build configuration is the set of
  macros the switch tests: \<^verbatim>\<open>MODIO_PLATFORM_UNREAL\<close>, \<^verbatim>\<open>__GNUC__\<close> and \<^verbatim>\<open>__clang__\<close>
  (each either defined or not).
\<close>

record build_config =
  defined_MODIO_PLATFORM_UNREAL :: bool
  defined_GNUC :: bool
  defined_clang :: bool

text \<open>
  What the preprocessor emits for the header is a sequence of lines of three kinds:
  an include of a named file, an include whose file name is a macro supplied by the
  build, and the use of a function-like or object-like macro on a line of its own.
\<close>

datatype directive =
    Include string
  | IncludeMacro string
  | MacroUse string

text \<open>
  The body of the header, lines 13 to 43: the branch taken and, within it, the lines in
  the order of the file.
\<close>

definition OptionalWrapper :: "build_config \<Rightarrow> directive list" where
  "OptionalWrapper cfg =
     (if defined_MODIO_PLATFORM_UNREAL cfg then
        [ IncludeMacro ''MODIO_UNREAL_PLATFORM_PREAMBLE'',
          Include ''modio/detail/ModioCompilerMacros.h'',
          MacroUse ''DISABLE_WARNING_PUSH'',
          MacroUse ''DISABLE_WARNING_NOT_IMPLICIT_CONSTRUCTOR'',
          MacroUse ''DISABLE_WARNING_NOT_IMPLICIT_DESCTRUCTOR'',
          Include ''tl/optional.hpp'',
          MacroUse ''DISABLE_WARNING_POP'',
          IncludeMacro ''MODIO_UNREAL_PLATFORM_EPILOGUE'' ]
      else if defined_GNUC cfg \<or> defined_clang cfg then
        [ Include ''modio/detail/ModioCompilerMacros.h'',
          MacroUse ''DISABLE_WARNING_PUSH'',
          MacroUse ''DISABLE_WARNING_SIGNED_UNSIGNED_INTEGER_COMPARISON'',
          Include ''tl/optional.hpp'',
          MacroUse ''DISABLE_WARNING_POP'' ]
      else
        [ Include ''tl/optional.hpp'' ])"

text \<open>
  The lines that only wrap the implementation: the warning-suppression macros together
  with the header that defines them, and the platform preamble and epilogue.
\<close>

definition warning_suppression :: "directive list" where
  "warning_suppression =
     [ Include ''modio/detail/ModioCompilerMacros.h'',
       MacroUse ''DISABLE_WARNING_PUSH'',
       MacroUse ''DISABLE_WARNING_NOT_IMPLICIT_CONSTRUCTOR'',
       MacroUse ''DISABLE_WARNING_NOT_IMPLICIT_DESCTRUCTOR'',
       MacroUse ''DISABLE_WARNING_SIGNED_UNSIGNED_INTEGER_COMPARISON'',
       MacroUse ''DISABLE_WARNING_POP'' ]"

definition platform_wrappers :: "directive list" where
  "platform_wrappers =
     [ IncludeMacro ''MODIO_UNREAL_PLATFORM_PREAMBLE'',
       IncludeMacro ''MODIO_UNREAL_PLATFORM_EPILOGUE'' ]"

definition is_wrapper :: "directive \<Rightarrow> bool" where
  "is_wrapper d = (d \<in> set (warning_suppression @ platform_wrappers))"

definition strip_wrappers :: "directive list \<Rightarrow> directive list" where
  "strip_wrappers ds = filter (\<lambda>d. \<not> is_wrapper d) ds"

definition optional_impl :: directive where
  "optional_impl = Include ''tl/optional.hpp''"

section \<open>The automation-test command: InitializeAsync.h\<close>

subsection \<open>Collaborators\<close>

text \<open>
  Modelled from the spec: \<^verbatim>\<open>FModioErrorCode\<close> is declared in the plugin's public headers,
  which are not part of the material at hand. The spec calls it a
  ``boolean-equivalent error code'': it carries a numeric value and converts to
  \<^verbatim>\<open>bool\<close>, true standing for an error and false for no error.
\<close>

datatype FModioErrorCode = FModioErrorCode (GetValue: int)

definition ErrorCode_bool :: "FModioErrorCode \<Rightarrow> bool" where
  "ErrorCode_bool ec = (GetValue ec \<noteq> 0)"

text \<open>
  The test context \<^verbatim>\<open>CurrentTest\<close> belongs to the engine's automation framework. Its
  state, as far as the command can affect it, is the list of comparisons submitted to it
  (description, actual, expected) and the list of errors it has raised; \<^verbatim>\<open>TestEqual\<close>
  records the comparison and raises an error exactly when the two values differ.
\<close>

record FAutomationTestBase =
  Assertions :: "(string \<times> bool \<times> bool) list"
  Errors :: "string list"

definition TestEqual :: "string \<Rightarrow> bool \<Rightarrow> bool \<Rightarrow> FAutomationTestBase \<Rightarrow> FAutomationTestBase" where
  "TestEqual What Actual Expected t =
     t\<lparr> Assertions := Assertions t @ [(What, Actual, Expected)],
        Errors := (if Actual = Expected then Errors t else Errors t @ [What]) \<rparr>"

text \<open>
  Modelled from the spec: the SDK handle \<^verbatim>\<open>Modio\<close> is a \<^verbatim>\<open>UModioSubsystem\<close>, declared in
  the plugin's ModioSubsystem.h, which is not part of the material at hand. By the spec
  \<^verbatim>\<open>InitializeAsync\<close> is a ``fire-and-forget asynchronous call'': it returns at once, and
  all it leaves behind is a request, holding the options and the delegate to invoke on
  completion, in the SDK's queue.
\<close>

datatype FModioInitializeOptions = GetAutomationTestOptions

datatype FOnErrorOnlyDelegateFast = CreateSP_Callback

datatype sdk_request = InitializeAsync_request FModioInitializeOptions FOnErrorOnlyDelegateFast

record UModioSubsystem =
  Requests :: "sdk_request list"

definition InitializeAsync ::
  "FModioInitializeOptions \<Rightarrow> FOnErrorOnlyDelegateFast \<Rightarrow> UModioSubsystem \<Rightarrow> UModioSubsystem" where
  "InitializeAsync Options OnInitComplete m =
     m\<lparr> Requests := Requests m @ [InitializeAsync_request Options OnInitComplete] \<rparr>"

subsection \<open>The command\<close>

text \<open>
  The command holds the test context, the SDK handle and the flag that the latent-command
  base class polls.
\<close>

record FModioInitializeAsyncCommand =
  CurrentTest :: FAutomationTestBase
  Modio :: UModioSubsystem
  bDone :: bool

text \<open>
  Modelled from the spec: \<^verbatim>\<open>Done\<close> and \<^verbatim>\<open>Update\<close> are inherited from
  \<^verbatim>\<open>FModioTestLatentCommandBase\<close> (Tests/Commands/ModioTestCommandBase.h), which is not
  part of the material at hand. By the spec the command ``polls a "done" flag each engine
  tick'': \<^verbatim>\<open>Done\<close> raises the flag, \<^verbatim>\<open>Update\<close> reports it and the scheduler retires the
  command once \<^verbatim>\<open>Update\<close> returns true.
\<close>

definition Done :: "FModioInitializeAsyncCommand \<Rightarrow> FModioInitializeAsyncCommand" where
  "Done c = c\<lparr> bDone := True \<rparr>"

definition Update :: "FModioInitializeAsyncCommand \<Rightarrow> bool" where
  "Update c = bDone c"

text \<open>\<^verbatim>\<open>Start\<close>, lines 21 to 25.\<close>

definition Start :: "FModioInitializeAsyncCommand \<Rightarrow> FModioInitializeAsyncCommand" where
  "Start c = c\<lparr> Modio := InitializeAsync GetAutomationTestOptions CreateSP_Callback (Modio c) \<rparr>"

text \<open>\<^verbatim>\<open>Callback\<close>, lines 26 to 30.\<close>

definition Callback :: "FModioErrorCode \<Rightarrow> FModioInitializeAsyncCommand \<Rightarrow> FModioInitializeAsyncCommand" where
  "Callback ec c =
     Done (c\<lparr> CurrentTest :=
               TestEqual ''SDK initializes completes without errors'' (ErrorCode_bool ec) False
                 (CurrentTest c) \<rparr>)"

text \<open>
  The SDK completing a queued request: the request leaves the queue and its delegate is
  invoked with the error code of the operation. The only delegate there is binds
  \<^verbatim>\<open>Callback\<close>.
\<close>

definition invoke :: "FOnErrorOnlyDelegateFast \<Rightarrow> FModioErrorCode \<Rightarrow> FModioInitializeAsyncCommand \<Rightarrow> FModioInitializeAsyncCommand" where
  "invoke d ec c = (case d of CreateSP_Callback \<Rightarrow> Callback ec c)"

definition complete_request :: "FModioErrorCode \<Rightarrow> FModioInitializeAsyncCommand \<Rightarrow> FModioInitializeAsyncCommand" where
  "complete_request ec c =
     (case Requests (Modio c) of
        [] \<Rightarrow> c
      | InitializeAsync_request opts d # rest \<Rightarrow>
          invoke d ec (c\<lparr> Modio := (Modio c)\<lparr> Requests := rest \<rparr> \<rparr>))"

section \<open>The overlay component: OverlayStaticMeshComponent.h\<close>

subsection \<open>Materials\<close>

text \<open>
  A \<^verbatim>\<open>UMaterialInterface*\<close> is the identity of a material object, or \<^verbatim>\<open>nullptr\<close>
  (\<open>None\<close>). A single-precision \<^verbatim>\<open>float\<close> is kept as its 32-bit pattern, so that every
  value the field can hold is a value of the model; \<^verbatim>\<open>0.f\<close> is the pattern of all zero
  bits.
\<close>

type_synonym UMaterialInterface_ptr = "nat option"

type_synonym float32 = "32 word"

definition float_zero :: float32 where
  "float_zero = 0"

text \<open>
  A dynamic material instance is an object of its own: the component holds a pointer to
  it, and the instance names the material it was instanced from as its parent. The
  instances created so far form the object store; the address of an instance is its
  position in the store, and creating one appends it.
\<close>

record UMaterialInstanceDynamic =
  Parent :: UMaterialInterface_ptr

type_synonym UMaterialInstanceDynamic_ptr = "nat option"

type_synonym object_store = "UMaterialInstanceDynamic list"

definition Create :: "UMaterialInterface_ptr \<Rightarrow> object_store \<Rightarrow> nat \<times> object_store" where
  "Create ParentMaterial h = (length h, h @ [\<lparr> Parent = ParentMaterial \<rparr>])"

definition deref :: "object_store \<Rightarrow> nat \<Rightarrow> UMaterialInstanceDynamic option" where
  "deref h a = (if a < length h then Some (h ! a) else None)"

subsection \<open>The class\<close>

text \<open>
  The data members of the class, lines 13 to 26, after the state of the base class
  \<^verbatim>\<open>UStaticMeshComponent\<close>, which belongs to the engine and is left open.
\<close>

record 'super UOverlayStaticMeshComponent =
  Super :: 'super
  bAutoCreateDynamicOverlay :: bool
  OverlayMaterial :: UMaterialInterface_ptr
  OverlayMaterialDynamic :: UMaterialInstanceDynamic_ptr
  OverlayValue :: float32

text \<open>
  Default construction applies the member initialisers of lines 14, 22 and 26.
  \<^verbatim>\<open>OverlayMaterial\<close> has no initialiser; its initial value and the state of the base
  class are left open.
\<close>

definition default_construct ::
  "'super \<Rightarrow> UMaterialInterface_ptr \<Rightarrow> 'super UOverlayStaticMeshComponent" where
  "default_construct base om =
     \<lparr> Super = base,
       bAutoCreateDynamicOverlay = True,
       OverlayMaterial = om,
       OverlayMaterialDynamic = None,
       OverlayValue = float_zero \<rparr>"

subsection \<open>Member functions\<close>

text \<open>
  A member function runs on the object store and the component. A member function
  declared \<^verbatim>\<open>const\<close> receives the component read-only: its body computes the result and
  may act on the objects of the store, and the component is handed back as it came.
\<close>

type_synonym 'super world = "object_store \<times> 'super UOverlayStaticMeshComponent"

definition const_member ::
  "('super UOverlayStaticMeshComponent \<Rightarrow> object_store \<Rightarrow> 'r \<times> object_store) \<Rightarrow>
   'super world \<Rightarrow> 'r \<times> 'super world" where
  "const_member body w =
     (case w of (h, c) \<Rightarrow> (case body c h of (r, h') \<Rightarrow> (r, (h', c))))"

text \<open>
  Modelled from the spec: the bodies of \<^verbatim>\<open>GetOverlayMaterial\<close> and \<^verbatim>\<open>SetOverlayMaterial\<close>
  are in OverlayStaticMeshComponent.cpp, which is not part of the material at hand; the
  header declares them (lines 28 to 34). By the spec they are a property getter/setter
  pair, and by the header's comments the getter gets the overlay material and the setter
  sets the overlay material and ``will auto-create dynamic instance if enabled''; a
  dynamic instance ``mirrors the configured material''. With auto-creation disabled the
  setter is taken to leave the dynamic pointer alone.
\<close>

definition GetOverlayMaterial :: "'super world \<Rightarrow> UMaterialInterface_ptr \<times> 'super world" where
  "GetOverlayMaterial = const_member (\<lambda>c h. (OverlayMaterial c, h))"

definition SetOverlayMaterial :: "UMaterialInterface_ptr \<Rightarrow> 'super world \<Rightarrow> 'super world" where
  "SetOverlayMaterial InMaterial w =
     (case w of (h, c) \<Rightarrow>
        if bAutoCreateDynamicOverlay c then
          (case Create InMaterial h of (a, h') \<Rightarrow>
             (h', c\<lparr> OverlayMaterial := InMaterial, OverlayMaterialDynamic := Some a \<rparr>))
        else (h, c\<lparr> OverlayMaterial := InMaterial \<rparr>))"

text \<open>
  The data members are public and marked \<^verbatim>\<open>EditAnywhere\<close> (lines 11 to 26): the editor
  and any caller assign them directly, without going through a member function.
\<close>

definition assign_bAutoCreateDynamicOverlay :: "bool \<Rightarrow> 'super world \<Rightarrow> 'super world" where
  "assign_bAutoCreateDynamicOverlay b w =
     (case w of (h, c) \<Rightarrow> (h, c\<lparr> bAutoCreateDynamicOverlay := b \<rparr>))"

definition assign_OverlayMaterial :: "UMaterialInterface_ptr \<Rightarrow> 'super world \<Rightarrow> 'super world" where
  "assign_OverlayMaterial m w =
     (case w of (h, c) \<Rightarrow> (h, c\<lparr> OverlayMaterial := m \<rparr>))"

definition assign_OverlayValue :: "float32 \<Rightarrow> 'super world \<Rightarrow> 'super world" where
  "assign_OverlayValue v w =
     (case w of (h, c) \<Rightarrow> (h, c\<lparr> OverlayValue := v \<rparr>))"

subsection \<open>The invariant and the reachable states\<close>

text \<open>
  The dynamic instance, if present, mirrors the configured material: the pointer leads to
  an instance of the store whose parent is \<^verbatim>\<open>OverlayMaterial\<close>.
\<close>

definition mirrors :: "'super world \<Rightarrow> bool" where
  "mirrors w =
     (case w of (h, c) \<Rightarrow>
        (case OverlayMaterialDynamic c of
           None \<Rightarrow> True
         | Some a \<Rightarrow> (case deref h a of None \<Rightarrow> False | Some d \<Rightarrow> Parent d = OverlayMaterial c)))"

text \<open>
  A component starts its life with the properties marked \<^verbatim>\<open>EditAnywhere\<close> as configured
  and the \<^verbatim>\<open>Transient\<close> dynamic pointer at its initial \<^verbatim>\<open>nullptr\<close>. From there on the
  public interface is used in any order: the setter, the getter and assignments to the
  three editable properties. The members whose bodies are described nowhere
  (\<^verbatim>\<open>GetUsedMaterials\<close>, \<^verbatim>\<open>GetOverlayMaterialIndex\<close>, \<^verbatim>\<open>GetMaterial\<close>, \<^verbatim>\<open>TickComponent\<close>,
  \<^verbatim>\<open>CreateSceneProxy\<close>) could only add to the states reached.
\<close>

inductive reachable_public :: "'super world \<Rightarrow> bool" where
  constructed: "OverlayMaterialDynamic c = None \<Longrightarrow> reachable_public (h, c)"
| after_set: "reachable_public w \<Longrightarrow> reachable_public (SetOverlayMaterial InMaterial w)"
| after_get: "reachable_public w \<Longrightarrow> reachable_public (snd (GetOverlayMaterial w))"
| after_flag: "reachable_public w \<Longrightarrow> reachable_public (assign_bAutoCreateDynamicOverlay b w)"
| after_material: "reachable_public w \<Longrightarrow> reachable_public (assign_OverlayMaterial m w)"
| after_value: "reachable_public w \<Longrightarrow> reachable_public (assign_OverlayValue v w)"

text \<open>
  The same uses of the interface under one discipline: while a dynamic instance exists,
  auto-creation is not switched off and \<^verbatim>\<open>OverlayMaterial\<close> is not assigned directly, only
  through the setter.
\<close>

inductive reachable_guarded :: "'super world \<Rightarrow> bool" where
  constructed: "OverlayMaterialDynamic c = None \<Longrightarrow> reachable_guarded (h, c)"
| after_set: "reachable_guarded w \<Longrightarrow> reachable_guarded (SetOverlayMaterial InMaterial w)"
| after_get: "reachable_guarded w \<Longrightarrow> reachable_guarded (snd (GetOverlayMaterial w))"
| after_flag: "reachable_guarded w \<Longrightarrow> b \<or> OverlayMaterialDynamic (snd w) = None \<Longrightarrow>
     reachable_guarded (assign_bAutoCreateDynamicOverlay b w)"
| after_material: "reachable_guarded w \<Longrightarrow> OverlayMaterialDynamic (snd w) = None \<Longrightarrow>
     reachable_guarded (assign_OverlayMaterial m w)"
| after_value: "reachable_guarded w \<Longrightarrow> reachable_guarded (assign_OverlayValue v w)"


text \<open>The component as the tuple of its parts, and back.\<close>

definition fields ::
  "'super UOverlayStaticMeshComponent \<Rightarrow>
   'super \<times> bool \<times> UMaterialInterface_ptr \<times> UMaterialInstanceDynamic_ptr \<times> float32" where
  "fields c =
     (Super c, bAutoCreateDynamicOverlay c, OverlayMaterial c, OverlayMaterialDynamic c,
      OverlayValue c)"

definition of_fields ::
  "'super \<times> bool \<times> UMaterialInterface_ptr \<times> UMaterialInstanceDynamic_ptr \<times> float32 \<Rightarrow>
   'super UOverlayStaticMeshComponent" where
  "of_fields t =
     (case t of (s, b, m, d, v) \<Rightarrow>
        \<lparr> Super = s,
          bAutoCreateDynamicOverlay = b,
          OverlayMaterial = m,
          OverlayMaterialDynamic = d,
          OverlayValue = v \<rparr>)"

section \<open>Sample inputs\<close>

definition unreal_build :: build_config where
  "unreal_build =
     \<lparr> defined_MODIO_PLATFORM_UNREAL = True, defined_GNUC = False, defined_clang = True \<rparr>"

definition gcc_build :: build_config where
  "gcc_build =
     \<lparr> defined_MODIO_PLATFORM_UNREAL = False, defined_GNUC = True, defined_clang = False \<rparr>"

text \<open>A command with nothing asserted, nothing queued and the flag clear.\<close>

definition idle_command :: FModioInitializeAsyncCommand where
  "idle_command =
     \<lparr> CurrentTest = \<lparr> Assertions = [], Errors = [] \<rparr>,
       Modio = \<lparr> Requests = [] \<rparr>,
       bDone = False \<rparr>"

text \<open>A component with a dynamic instance of material 3 at address 0.\<close>

definition sample_world :: "unit world" where
  "sample_world =
     ([\<lparr> Parent = Some 3 \<rparr>],
      \<lparr> Super = (),
        bAutoCreateDynamicOverlay = True,
        OverlayMaterial = Some 3,
        OverlayMaterialDynamic = Some 0,
        OverlayValue = 5 \<rparr>)"





section \<open>The optional-type shim: one implementation on every platform\<close>

lemma is_wrapper_simps:
  "is_wrapper (Include ''tl/optional.hpp'') = False"
  "is_wrapper (Include ''modio/detail/ModioCompilerMacros.h'') = True"
  "is_wrapper (MacroUse ''DISABLE_WARNING_PUSH'') = True"
  "is_wrapper (MacroUse ''DISABLE_WARNING_NOT_IMPLICIT_CONSTRUCTOR'') = True"
  "is_wrapper (MacroUse ''DISABLE_WARNING_NOT_IMPLICIT_DESCTRUCTOR'') = True"
  "is_wrapper (MacroUse ''DISABLE_WARNING_SIGNED_UNSIGNED_INTEGER_COMPARISON'') = True"
  "is_wrapper (MacroUse ''DISABLE_WARNING_POP'') = True"
  "is_wrapper (IncludeMacro ''MODIO_UNREAL_PLATFORM_PREAMBLE'') = True"
  "is_wrapper (IncludeMacro ''MODIO_UNREAL_PLATFORM_EPILOGUE'') = True"
  by (simp_all add: is_wrapper_def warning_suppression_def platform_wrappers_def)

lemma strip_OptionalWrapper: "strip_wrappers (OptionalWrapper cfg) = [optional_impl]"
  by (simp add: OptionalWrapper_def strip_wrappers_def is_wrapper_simps optional_impl_def)

lemma count_OptionalWrapper: "count_list (OptionalWrapper cfg) optional_impl = 1"
  by (simp add: OptionalWrapper_def optional_impl_def)

text \<open>
  C5. For every build configuration the header includes \<^verbatim>\<open>tl/optional.hpp\<close> exactly
  once, and once the warning-suppression lines and the platform preamble and epilogue
  are taken away that include is all that is left of it; so any two configurations select
  the same implementation.
\<close>

theorem OptionalWrapper_includes_optional_once:
  "count_list (OptionalWrapper cfg) optional_impl = 1
   \<and> strip_wrappers (OptionalWrapper cfg) = [optional_impl]
   \<and> strip_wrappers (OptionalWrapper cfg) = strip_wrappers (OptionalWrapper cfg')"
  by (simp only: strip_OptionalWrapper count_OptionalWrapper simp_thms)

theorem OptionalWrapper_includes_optional_once_witness:
  "count_list (OptionalWrapper unreal_build) optional_impl = 1
   \<and> strip_wrappers (OptionalWrapper unreal_build) = [optional_impl]
   \<and> strip_wrappers (OptionalWrapper unreal_build) = strip_wrappers (OptionalWrapper gcc_build)
   \<and> length (OptionalWrapper unreal_build) = 8 \<and> length (OptionalWrapper gcc_build) = 5"
proof -
  have sizes: "length (OptionalWrapper unreal_build) = 8 \<and> length (OptionalWrapper gcc_build) = 5"
    by (simp add: OptionalWrapper_def unreal_build_def gcc_build_def)
  from OptionalWrapper_includes_optional_once [of unreal_build gcc_build] sizes
  show ?thesis by (elim conjE) (intro conjI, assumption+)
qed

section \<open>The automation-test command\<close>

lemma TestEqual_fails_iff:
  "(Errors (TestEqual What Actual Expected t) = Errors t) = (Actual = Expected)"
  by (simp add: TestEqual_def)

lemma Start_keeps_Update: "Update (Start c) = Update c"
  by (simp add: Start_def Update_def)

lemma Start_then_complete:
  "complete_request ec (Start c) =
     Callback ec
       (c\<lparr> Modio := (Modio c)\<lparr> Requests :=
             tl (Requests (Modio c) @
                   [InitializeAsync_request GetAutomationTestOptions CreateSP_Callback]) \<rparr> \<rparr>)"
  by (cases "Requests (Modio c)")
     (simp_all add: complete_request_def Start_def InitializeAsync_def invoke_def
        split: sdk_request.splits FOnErrorOnlyDelegateFast.splits)

lemma Update_after_completion: "Update (complete_request ec (Start c))"
  by (simp add: Start_then_complete Callback_def Done_def Update_def)

text \<open>
  C1. For every error code delivered to \<^verbatim>\<open>Callback\<close>, the command submits exactly one
  comparison to the test framework, of the error code against \<^verbatim>\<open>false\<close>, which raises a
  test error exactly when the code is truthy. It makes no other use of the code: the SDK
  handle is left as it was, and the outcome is the same for any two codes of the same
  truth value.
\<close>

theorem Callback_asserts_once:
  "Assertions (CurrentTest (Callback ec c)) =
     Assertions (CurrentTest c) @
       [(''SDK initializes completes without errors'', ErrorCode_bool ec, False)]
   \<and> Errors (CurrentTest (Callback ec c)) =
     (if ErrorCode_bool ec
      then Errors (CurrentTest c) @ [''SDK initializes completes without errors'']
      else Errors (CurrentTest c))
   \<and> Modio (Callback ec c) = Modio c
   \<and> Callback ec c = Callback (FModioErrorCode (if ErrorCode_bool ec then 1 else 0)) c"
  by (simp add: Callback_def Done_def TestEqual_def ErrorCode_bool_def)

theorem Callback_asserts_once_witness:
  "Assertions (CurrentTest (Callback (FModioErrorCode 20460) idle_command)) =
     [(''SDK initializes completes without errors'', True, False)]
   \<and> Errors (CurrentTest (Callback (FModioErrorCode 20460) idle_command)) =
     [''SDK initializes completes without errors'']
   \<and> Modio (Callback (FModioErrorCode 20460) idle_command) = \<lparr> Requests = [] \<rparr>
   \<and> Callback (FModioErrorCode 20460) idle_command = Callback (FModioErrorCode 1) idle_command"
proof -
  have truthy: "ErrorCode_bool (FModioErrorCode 20460)"
    by (simp add: ErrorCode_bool_def)
  have before:
    "Assertions (CurrentTest idle_command) = [] \<and> Errors (CurrentTest idle_command) = []
     \<and> Modio idle_command = \<lparr> Requests = [] \<rparr>"
    by (simp add: idle_command_def)
  note once = Callback_asserts_once [of "FModioErrorCode 20460" idle_command]
  have a: "Assertions (CurrentTest (Callback (FModioErrorCode 20460) idle_command)) =
       [(''SDK initializes completes without errors'', True, False)]"
    using once [THEN conjunct1] truthy before by simp
  have e: "Errors (CurrentTest (Callback (FModioErrorCode 20460) idle_command)) =
       [''SDK initializes completes without errors'']"
    using once [THEN conjunct2, THEN conjunct1] truthy before by simp
  have m: "Modio (Callback (FModioErrorCode 20460) idle_command) = \<lparr> Requests = [] \<rparr>"
    using once [THEN conjunct2, THEN conjunct2, THEN conjunct1] before by simp
  have f: "Callback (FModioErrorCode 20460) idle_command = Callback (FModioErrorCode 1) idle_command"
    using once [THEN conjunct2, THEN conjunct2, THEN conjunct2] truthy by simp
  show ?thesis
    by (intro conjI) (rule a, rule e, rule m, rule f)
qed

text \<open>
  C4. \<^verbatim>\<open>Start\<close> queues exactly one request with the SDK, \<^verbatim>\<open>InitializeAsync\<close> with the
  automation-test options and the delegate bound to \<^verbatim>\<open>Callback\<close>, and nothing else: the
  test context and the done flag are as before, so \<^verbatim>\<open>Start\<close> has not waited for the
  result, and what \<^verbatim>\<open>Update\<close> reports after it is the done flag.
\<close>

theorem Start_issues_one_call:
  "Requests (Modio (Start c)) =
     Requests (Modio c) @ [InitializeAsync_request GetAutomationTestOptions CreateSP_Callback]
   \<and> length (Requests (Modio (Start c))) = length (Requests (Modio c)) + 1
   \<and> CurrentTest (Start c) = CurrentTest c
   \<and> bDone (Start c) = bDone c
   \<and> Update (Start c) = bDone c"
  by (simp add: Start_def InitializeAsync_def Update_def)

theorem Start_issues_one_call_witness:
  "Requests (Modio (Start idle_command)) =
     [InitializeAsync_request GetAutomationTestOptions CreateSP_Callback]
   \<and> \<not> Update (Start idle_command)
   \<and> Assertions (CurrentTest (Start idle_command)) = []"
  using Start_issues_one_call [of idle_command]
  by (simp add: idle_command_def)

text \<open>
  C7. For every error code, truthy ones included, \<^verbatim>\<open>Callback\<close> ends with \<^verbatim>\<open>Done\<close>, applied
  to the state in which the comparison has been submitted: the done flag is set and the
  next \<^verbatim>\<open>Update\<close> reports the command complete.
\<close>

theorem Callback_always_Done:
  "bDone (Callback ec c) \<and> Update (Callback ec c)
   \<and> Callback ec c =
       Done (c\<lparr> CurrentTest := TestEqual ''SDK initializes completes without errors''
                                   (ErrorCode_bool ec) False (CurrentTest c) \<rparr>)"
  by (simp add: Callback_def Done_def Update_def)

theorem Callback_always_Done_witness:
  "bDone (Callback (FModioErrorCode 20460) idle_command)
   \<and> Update (Callback (FModioErrorCode 20460) idle_command)
   \<and> \<not> Update idle_command
   \<and> Errors (CurrentTest (Callback (FModioErrorCode 20460) idle_command)) \<noteq> []"
  using Callback_always_Done [of "FModioErrorCode 20460" idle_command]
  by (simp add: idle_command_def Update_def Done_def TestEqual_def ErrorCode_bool_def)

section \<open>The overlay component\<close>

subsection \<open>State and construction\<close>

text \<open>
  C6. The state of a component is exactly its five parts: the state of the
  \<^verbatim>\<open>UStaticMeshComponent\<close> base, the auto-create flag, the configured overlay material, the
  pointer to the dynamic instance (possibly null) and the overlay value. Every component
  is rebuilt from the five, and any five values make a component with just these parts.
\<close>

theorem component_is_its_fields:
  "of_fields (fields c) = c \<and> fields (of_fields (s, b, m, d, v)) = (s, b, m, d, v)"
  by (simp add: fields_def of_fields_def)

theorem component_is_its_fields_witness:
  "of_fields (fields (snd sample_world)) = snd sample_world
   \<and> fields (of_fields ((), False, None, Some 2, 7)) = ((), False, None, Some 2, 7)
   \<and> fields (snd sample_world) = ((), True, Some 3, Some 0, 5)"
  using component_is_its_fields [of "snd sample_world" "()" False None "Some 2" 7]
  by (simp add: sample_world_def fields_def)

text \<open>
  C8. A default-constructed component has \<^verbatim>\<open>bAutoCreateDynamicOverlay\<close> true,
  \<^verbatim>\<open>OverlayMaterialDynamic\<close> null and \<^verbatim>\<open>OverlayValue\<close> zero.
\<close>

theorem default_construct_fields:
  "bAutoCreateDynamicOverlay (default_construct base om) = True
   \<and> OverlayMaterialDynamic (default_construct base om) = None
   \<and> OverlayValue (default_construct base om) = float_zero
   \<and> unat (OverlayValue (default_construct base om)) = 0"
  by (simp add: default_construct_def float_zero_def)

theorem default_construct_fields_witness:
  "bAutoCreateDynamicOverlay (default_construct () (Some 3))
   \<and> OverlayMaterialDynamic (default_construct () (Some 3)) = None
   \<and> OverlayValue (default_construct () (Some 3)) = 0
   \<and> OverlayMaterial (default_construct () (Some 3)) = Some 3"
  using default_construct_fields [of "()" "Some 3"]
  by (simp add: default_construct_def float_zero_def)

subsection \<open>Getter and setter\<close>

text \<open>
  C3. After \<^verbatim>\<open>SetOverlayMaterial(M)\<close>, in any state and for any material \<open>M\<close>,
  \<^verbatim>\<open>GetOverlayMaterial()\<close> returns \<open>M\<close>.
\<close>

theorem Get_after_Set: "fst (GetOverlayMaterial (SetOverlayMaterial M w)) = M"
  by (cases w) (simp add: GetOverlayMaterial_def SetOverlayMaterial_def const_member_def Create_def)

theorem Get_after_Set_witness:
  "fst (GetOverlayMaterial (SetOverlayMaterial (Some 7) sample_world)) = Some 7
   \<and> fst (GetOverlayMaterial sample_world) = Some 3"
  using Get_after_Set [of "Some 7" sample_world]
  by (simp add: GetOverlayMaterial_def const_member_def sample_world_def)

subsection \<open>The dynamic instance mirrors the configured material\<close>


lemma SetOverlayMaterial_creates:
  "bAutoCreateDynamicOverlay c \<Longrightarrow>
   SetOverlayMaterial M (h, c) =
     (h @ [\<lparr> Parent = M \<rparr>], c\<lparr> OverlayMaterial := M, OverlayMaterialDynamic := Some (length h) \<rparr>)"
  by (simp add: SetOverlayMaterial_def Create_def)

lemma SetOverlayMaterial_establishes:
  "bAutoCreateDynamicOverlay c \<Longrightarrow> mirrors (SetOverlayMaterial M (h, c))"
  by (simp add: SetOverlayMaterial_creates mirrors_def deref_def)






lemma reachable_guarded_public: "reachable_guarded w \<Longrightarrow> reachable_public w"
  by (induction rule: reachable_guarded.induct) (auto intro: reachable_public.intros)






end
